theory Spec2Isabelle
  imports Main
begin

section \<open>Python values that vectors.py handles\<close>

text \<open>
  Exceptions. \<open>FileNotFoundError\<close>, \<open>ValueError\<close> and \<open>ConnectionError\<close> are the three
  classes that \<open>create_embeddings\<close> raises itself. \<open>LibraryError n\<close> is a subclass of
  \<open>Exception\<close> named \<open>n\<close> raised inside one of the imported libraries; \<open>BaseOnly n\<close> is a
  subclass of \<open>BaseException\<close> that is not a subclass of \<open>Exception\<close>
  (\<open>KeyboardInterrupt\<close>, \<open>SystemExit\<close>), which \<open>except Exception\<close> lets through.
\<close>

datatype py_class =
    FileNotFoundError
  | ValueError
  | ConnectionError
  | LibraryError string
  | BaseOnly string

fun is_Exception :: "py_class \<Rightarrow> bool" where
  "is_Exception (BaseOnly n) = False"
| "is_Exception c = True"

text \<open>
  An exception object: its class, its single message argument, and \<open>__context__\<close>, the
  exception that was being handled when this one was raised. The source has no
  \<open>raise ... from\<close>, so \<open>__cause__\<close> is never set and is not a field here.
\<close>

datatype py_exc =
  PyExc (exc_class: py_class) (exc_msg: string) (exc_context: "py_exc option")

text \<open>\<open>{e}\<close> inside an f-string is \<open>str(e)\<close>: the message of a one-argument exception.\<close>

definition str_exc :: "py_exc \<Rightarrow> string" where
  "str_exc e = exc_msg e"

text \<open>
  A langchain \<open>Document\<close>: text and metadata. The splitter returns documents too (the
  chunks), so a chunk has the same type.
\<close>

record document =
  page_content :: string
  metadata :: "(string \<times> string) list"

text \<open>The \<open>HuggingFaceBgeEmbeddings\<close> object, identified by its constructor arguments.\<close>

record hf_embeddings =
  hf_model_name :: string
  hf_model_kwargs :: "(string \<times> string) list"
  hf_encode_kwargs :: "(string \<times> bool) list"

text \<open>
  The fields of an \<open>EmbeddingsManager\<close>. \<open>os.getenv\<close> returns \<open>None\<close> for an unset
  variable and the \<open>str\<close> annotations are not enforced, so the three Qdrant settings are
  optional strings.
\<close>

record embeddings_manager =
  model_name :: string
  device :: string
  encode_kwargs :: "(string \<times> bool) list"
  qdrant_url :: "string option"
  qdrant_api_key :: "string option"
  collection_name :: "string option"
  embeddings :: hf_embeddings

section \<open>The world outside the script\<close>

text \<open>What the file system holds at a path, as the process sees it.\<close>

datatype fs_entry = Missing | Directory | RegularFile (readable: bool)

fun is_readable_file :: "fs_entry \<Rightarrow> bool" where
  "is_readable_file (RegularFile r) = r"
| "is_readable_file k = False"

text \<open>
  The calls that leave the script, in the order they are made. The type \<open>'v\<close> is the
  embedding vector; its numeric content is not modelled.
\<close>

datatype 'v event =
    LoaderLoad string
  | SplitDocuments nat nat "document list"
  | EmbedText string
  | StoreUpsert "string option" "string option" "(document \<times> 'v) list" bool

text \<open>
  The behaviour of the imported libraries and of the operating system, taken as
  parameters: none of their code is part of vectors.py.
  \<^item> \<open>path_kind\<close>: the file system, read by \<open>os.path.exists\<close>;
  \<^item> \<open>hf_fault\<close>: the exception, if any, that \<open>HuggingFaceBgeEmbeddings(...)\<close> raises;
  \<^item> \<open>pdf_load\<close>: \<open>UnstructuredPDFLoader(path).load()\<close>;
  \<^item> \<open>split_documents\<close>: \<open>RecursiveCharacterTextSplitter(chunk_size, chunk_overlap)
    .split_documents(docs)\<close>;
  \<^item> \<open>embed_text\<close>: the embedding model applied to one text;
  \<^item> \<open>store_fault\<close>: the exception, if any, with which the store at a URL rejects a
    request made with an API key on a collection.
\<close>

record 'v world =
  path_kind :: "string \<Rightarrow> fs_entry"
  hf_fault :: "string \<Rightarrow> (string \<times> string) list \<Rightarrow> (string \<times> bool) list \<Rightarrow> py_exc option"
  pdf_load :: "string \<Rightarrow> py_exc + document list"
  split_documents :: "nat \<Rightarrow> nat \<Rightarrow> document list \<Rightarrow> py_exc + document list"
  embed_text :: "hf_embeddings \<Rightarrow> string \<Rightarrow> py_exc + 'v"
  store_fault :: "string option \<Rightarrow> string option \<Rightarrow> string option \<Rightarrow> py_exc option"

text \<open>\<open>os.path.exists\<close>: true for any existing entry, a directory as well as a file.\<close>

definition os_path_exists :: "'v world \<Rightarrow> string \<Rightarrow> bool" where
  "os_path_exists w p = (path_kind w p \<noteq> Missing)"

text \<open>
  The state a call of \<open>create_embeddings\<close> runs in: the object \<open>self\<close>, the calls made so
  far, and the contents of every collection of every store, keyed by URL and name.
\<close>

record 'v pstate =
  manager :: embeddings_manager
  calls :: "'v event list"
  collections :: "string option \<times> string option \<Rightarrow> (document \<times> 'v) list"

section \<open>Module level and constructor\<close>

text \<open>
  \<open>__init__\<close>: stores its six arguments and builds the embeddings object. An
  exception of the embeddings constructor propagates.
\<close>

definition EmbeddingsManager_init ::
  "'v world \<Rightarrow> string \<Rightarrow> string \<Rightarrow> (string \<times> bool) list \<Rightarrow>
   string option \<Rightarrow> string option \<Rightarrow> string option \<Rightarrow> py_exc + embeddings_manager" where
  "EmbeddingsManager_init w mn dev ek url api_key coll =
     (case hf_fault w mn [(''device'', dev)] ek of
        Some e \<Rightarrow> Inl e
      | None \<Rightarrow>
          Inr \<lparr>model_name = mn, device = dev, encode_kwargs = ek,
               qdrant_url = url, qdrant_api_key = api_key, collection_name = coll,
               embeddings = \<lparr>hf_model_name = mn, hf_model_kwargs = [(''device'', dev)],
                              hf_encode_kwargs = ek\<rparr>\<rparr>)"

text \<open>
  \<open>EmbeddingsManager()\<close> with every argument defaulted. The three Qdrant defaults are
  the module-level variables, read with \<open>os.getenv\<close> from the environment \<open>env\<close> (as it is
  after \<open>load_dotenv()\<close>).
\<close>

definition EmbeddingsManager_default ::
  "(string \<Rightarrow> string option) \<Rightarrow> 'v world \<Rightarrow> py_exc + embeddings_manager" where
  "EmbeddingsManager_default env w =
     EmbeddingsManager_init w ''BAAI/bge-small-en'' ''cpu'' [(''normalize_embeddings'', True)]
       (env ''QDRANT_URL'') (env ''QDRANT_API_KEY'') (env ''COLLECTION_NAME'')"

section \<open>The store call\<close>

text \<open>
  Modelled from the spec: the embedding step of \<open>Qdrant.from_documents\<close>, whose code is
  in the langchain library and not in vectors.py. Section 4.2, step 4: each chunk is
  passed through the embedding provider. The texts are embedded in order and the first
  failure ends the step.
\<close>

fun embed_documents ::
  "'v world \<Rightarrow> hf_embeddings \<Rightarrow> string list \<Rightarrow> 'v pstate \<Rightarrow> (py_exc + 'v list) \<times> 'v pstate" where
  "embed_documents w emb [] s = (Inr [], s)"
| "embed_documents w emb (t # ts) s =
     (case embed_text w emb t of
        Inl e \<Rightarrow> (Inl e, s\<lparr>calls := calls s @ [EmbedText t]\<rparr>)
      | Inr v \<Rightarrow>
          (case embed_documents w emb ts (s\<lparr>calls := calls s @ [EmbedText t]\<rparr>) of
             (Inl e, s') \<Rightarrow> (Inl e, s')
           | (Inr vs, s') \<Rightarrow> (Inr (v # vs), s')))"

text \<open>
  Modelled from the spec: the store client, whose code is in the qdrant and langchain
  libraries and not in vectors.py. Section 6: \<open>upsert(collection_name, items, recreate)\<close>,
  failing with a store error; section 2: it indexes the batch into the named collection,
  recreating the collection first when asked to; section 7: either the full batch is
  upserted or nothing is.
\<close>

definition upsert ::
  "'v world \<Rightarrow> string option \<Rightarrow> string option \<Rightarrow> string option \<Rightarrow> (document \<times> 'v) list \<Rightarrow> bool \<Rightarrow>
   'v pstate \<Rightarrow> (py_exc + unit) \<times> 'v pstate" where
  "upsert w url api_key coll items recreate s =
     (case store_fault w url api_key coll of
        Some e \<Rightarrow> (Inl e, s\<lparr>calls := calls s @ [StoreUpsert url coll items recreate]\<rparr>)
      | None \<Rightarrow>
          (Inr (),
           s\<lparr>calls := calls s @ [StoreUpsert url coll items recreate],
             collections := (collections s)
               ((url, coll) := (if recreate then [] else collections s (url, coll)) @ items)\<rparr>))"

text \<open>
  Modelled from the spec: \<open>Qdrant.from_documents(splits, embeddings, url=, prefer_grpc=,
  api_key=, collection_name=, force_recreate=)\<close>, whose code is in the langchain library
  and not in vectors.py. Section 4.2, steps 4 and 5: every chunk is embedded, then the
  full batch of (chunk, vector) pairs is handed to the store's upsert with the recreate
  flag.
\<close>

definition from_documents ::
  "'v world \<Rightarrow> document list \<Rightarrow> hf_embeddings \<Rightarrow> string option \<Rightarrow> bool \<Rightarrow> string option \<Rightarrow>
   string option \<Rightarrow> bool \<Rightarrow> 'v pstate \<Rightarrow> (py_exc + unit) \<times> 'v pstate" where
  "from_documents w splits emb url prefer_grpc api_key coll force_recreate s =
     (case embed_documents w emb (map page_content splits) s of
        (Inl e, s') \<Rightarrow> (Inl e, s')
      | (Inr vecs, s') \<Rightarrow> upsert w url api_key coll (zip splits vecs) force_recreate s')"

section \<open>create_embeddings\<close>

text \<open>The returned string; its first character U+2705 is the three bytes of its UTF-8 form.\<close>

definition success_message :: string where
  "success_message =
     [CHR 0xE2, CHR 0x9C, CHR 0x85]
     @ '' Vector DB Successfully Created and Stored in Qdrant Cloud!''"

text \<open>
  \<open>create_embeddings(self, pdf_path)\<close>. The result is the raised exception (\<open>Inl\<close>) or the
  returned string (\<open>Inr\<close>), with the state the call leaves behind. The three \<open>raise\<close>
  statements before the \<open>try\<close> run while no exception is being handled, so their
  context is empty; the one in the \<open>except\<close> clause runs while \<open>e\<close> is being handled, so
  Python records \<open>e\<close> as its context.
\<close>

definition create_embeddings ::
  "'v world \<Rightarrow> string \<Rightarrow> 'v pstate \<Rightarrow> (py_exc + string) \<times> 'v pstate" where
  "create_embeddings w pdf_path s =
     (if \<not> os_path_exists w pdf_path then
        (Inl (PyExc FileNotFoundError (''The file '' @ pdf_path @ '' does not exist.'') None), s)
      else
        (case pdf_load w pdf_path of
           Inl e \<Rightarrow> (Inl e, s\<lparr>calls := calls s @ [LoaderLoad pdf_path]\<rparr>)
         | Inr docs \<Rightarrow>
             if docs = [] then
               (Inl (PyExc ValueError ''No documents were loaded from the PDF.'' None),
                s\<lparr>calls := calls s @ [LoaderLoad pdf_path]\<rparr>)
             else
               (case split_documents w 1000 250 docs of
                  Inl e \<Rightarrow>
                    (Inl e,
                     s\<lparr>calls := calls s @ [LoaderLoad pdf_path, SplitDocuments 1000 250 docs]\<rparr>)
                | Inr splits \<Rightarrow>
                    if splits = [] then
                      (Inl (PyExc ValueError
                              ''No text chunks were created from the documents.'' None),
                       s\<lparr>calls := calls s @ [LoaderLoad pdf_path, SplitDocuments 1000 250 docs]\<rparr>)
                    else
                      (case from_documents w splits (embeddings (manager s))
                              (qdrant_url (manager s)) False (qdrant_api_key (manager s))
                              (collection_name (manager s)) True
                              (s\<lparr>calls := calls s
                                   @ [LoaderLoad pdf_path, SplitDocuments 1000 250 docs]\<rparr>) of
                         (Inl e, s') \<Rightarrow>
                           if is_Exception (exc_class e) then
                             (Inl (PyExc ConnectionError
                                     (''Failed to connect to Qdrant Cloud: '' @ str_exc e)
                                     (Some e)), s')
                           else (Inl e, s')
                       | (Inr u, s') \<Rightarrow> (Inr success_message, s')))))"

section \<open>Concrete worlds and states\<close>

text \<open>
  A small world in which everything works: one readable file \<open>a.pdf\<close> holding two short
  documents, a directory \<open>/data\<close>, a splitter that returns each short document as one
  chunk, and a toy embedding (the length of the text). The other worlds change one
  collaborator each.
\<close>

definition doc_a :: document where
  "doc_a = \<lparr>page_content = ''alpha beta'', metadata = [(''source'', ''a.pdf'')]\<rparr>"

definition doc_b :: document where
  "doc_b = \<lparr>page_content = ''gamma'', metadata = [(''source'', ''a.pdf'')]\<rparr>"

definition doc_old :: document where
  "doc_old = \<lparr>page_content = ''stale'', metadata = [(''source'', ''old.pdf'')]\<rparr>"

definition ok_world :: "int list world" where
  "ok_world =
     \<lparr>path_kind = (\<lambda>p. if p = ''a.pdf'' then RegularFile True
                       else if p = ''/data'' then Directory else Missing),
      hf_fault = (\<lambda>mn mk ek. None),
      pdf_load = (\<lambda>p. if p = ''a.pdf'' then Inr [doc_a, doc_b]
                      else Inl (PyExc (LibraryError ''IsADirectoryError'') p None)),
      split_documents = (\<lambda>size overlap docs. Inr docs),
      embed_text = (\<lambda>emb t. Inr [int (length t)]),
      store_fault = (\<lambda>url api_key coll. None)\<rparr>"

definition mgr0 :: embeddings_manager where
  "mgr0 =
     \<lparr>model_name = ''BAAI/bge-small-en'', device = ''cpu'',
      encode_kwargs = [(''normalize_embeddings'', True)],
      qdrant_url = Some ''https://q.example'', qdrant_api_key = Some ''k'',
      collection_name = Some ''docs'',
      embeddings = \<lparr>hf_model_name = ''BAAI/bge-small-en'',
                     hf_model_kwargs = [(''device'', ''cpu'')],
                     hf_encode_kwargs = [(''normalize_embeddings'', True)]\<rparr>\<rparr>"

definition s0 :: "int list pstate" where
  "s0 = \<lparr>manager = mgr0, calls = [],
         collections = (\<lambda>k. if k = (Some ''https://q.example'', Some ''docs'')
                             then [(doc_old, [5])] else [])\<rparr>"

definition s_done :: "int list pstate" where
  "s_done =
     s0\<lparr>calls := [LoaderLoad ''a.pdf'', SplitDocuments 1000 250 [doc_a, doc_b],
                   EmbedText ''alpha beta'', EmbedText ''gamma'',
                   StoreUpsert (Some ''https://q.example'') (Some ''docs'')
                     [(doc_a, [10]), (doc_b, [5])] True],
         collections := (collections s0)
           ((Some ''https://q.example'', Some ''docs'') := [(doc_a, [10]), (doc_b, [5])])\<rparr>"

definition empty_world :: "int list world" where
  "empty_world = ok_world\<lparr>pdf_load := (\<lambda>p. Inr [])\<rparr>"

definition blank_world :: "int list world" where
  "blank_world = ok_world\<lparr>split_documents := (\<lambda>size overlap docs. Inr [])\<rparr>"

definition store_error :: py_exc where
  "store_error = PyExc (LibraryError ''UnexpectedResponse'') ''401 Unauthorized'' None"

definition store_down_world :: "int list world" where
  "store_down_world = ok_world\<lparr>store_fault := (\<lambda>url api_key coll. Some store_error)\<rparr>"

definition embedding_error :: py_exc where
  "embedding_error = PyExc (LibraryError ''EmbeddingError'') ''model failed'' None"

definition embed_fail_world :: "int list world" where
  "embed_fail_world =
     ok_world\<lparr>embed_text := (\<lambda>emb t. if t = ''gamma'' then Inl embedding_error
                                      else Inr [int (length t)])\<rparr>"

definition empty_env :: "string \<Rightarrow> string option" where
  "empty_env = (\<lambda>name. None)"

section \<open>Properties of the store call\<close>

lemma embed_documents_frame:
  "embed_documents w emb ts s = (r, s') \<Longrightarrow>
     manager s' = manager s \<and> collections s' = collections s"
proof (induction ts arbitrary: s r s')
  case Nil
  then show ?case by simp
next
  case (Cons t ts)
  show ?case
  proof (cases "embed_text w emb t")
    case (Inl e)
    with Cons.prems show ?thesis by auto
  next
    case (Inr v)
    obtain r1 s1 where rec: "embed_documents w emb ts (s\<lparr>calls := calls s @ [EmbedText t]\<rparr>) = (r1, s1)"
      by (cases "embed_documents w emb ts (s\<lparr>calls := calls s @ [EmbedText t]\<rparr>)")
    from Cons.IH [OF rec] have fr: "manager s1 = manager s \<and> collections s1 = collections s"
      by simp
    from Cons.prems Inr rec have "s' = s1"
      by (cases r1) auto
    with fr show ?thesis by simp
  qed
qed

lemma embed_documents_Inr:
  "embed_documents w emb ts s = (Inr vs, s') \<Longrightarrow> map (embed_text w emb) ts = map Inr vs"
proof (induction ts arbitrary: s vs s')
  case Nil
  then show ?case by simp
next
  case (Cons t ts)
  then show ?case
    by (auto split: sum.splits prod.splits)
qed

lemma embed_documents_ok:
  "map (embed_text w emb) ts = map Inr vs \<Longrightarrow>
     embed_documents w emb ts s = (Inr vs, s\<lparr>calls := calls s @ map EmbedText ts\<rparr>)"
proof (induction ts arbitrary: s vs)
  case Nil
  then show ?case by simp
next
  case (Cons t ts)
  then obtain v vs' where vs: "vs = v # vs'" "embed_text w emb t = Inr v"
    "map (embed_text w emb) ts = map Inr vs'"
    by (cases vs) auto
  from Cons.IH [OF vs(3)] vs(1,2) show ?case
    by simp
qed

lemma embed_documents_fail:
  "map (embed_text w emb) pre = map Inr vs \<Longrightarrow> embed_text w emb t = Inl e \<Longrightarrow>
     embed_documents w emb (pre @ t # post) s
       = (Inl e, s\<lparr>calls := calls s @ map EmbedText (pre @ [t])\<rparr>)"
proof (induction pre arbitrary: s vs)
  case Nil
  then show ?case by simp
next
  case (Cons p pre)
  then obtain v vs' where vs: "vs = v # vs'" "embed_text w emb p = Inr v"
    "map (embed_text w emb) pre = map Inr vs'"
    by (cases vs) auto
  from Cons.IH [OF vs(3) Cons.prems(2)] vs(2) show ?case
    by simp
qed

lemma upsert_manager: "upsert w url k coll items r s = (res, s') \<Longrightarrow> manager s' = manager s"
  by (auto simp: upsert_def split: option.splits)

lemma from_documents_manager:
  assumes "from_documents w splits emb url g k coll r s = (res, s')"
  shows "manager s' = manager s"
proof -
  obtain r1 s1 where emb: "embed_documents w emb (map page_content splits) s = (r1, s1)"
    by (cases "embed_documents w emb (map page_content splits) s")
  from embed_documents_frame [OF emb] have m1: "manager s1 = manager s" by simp
  show ?thesis
  proof (cases r1)
    case (Inl e)
    with assms emb m1 show ?thesis by (simp add: from_documents_def)
  next
    case (Inr vecs)
    with assms emb have "upsert w url k coll (zip splits vecs) r s1 = (res, s')"
      by (simp add: from_documents_def)
    from upsert_manager [OF this] m1 show ?thesis by simp
  qed
qed

lemma create_embeddings_store_step:
  assumes "os_path_exists w p" and "pdf_load w p = Inr docs" and "docs \<noteq> []"
    and "split_documents w 1000 250 docs = Inr splits" and "splits \<noteq> []"
    and "from_documents w splits (embeddings (manager s)) (qdrant_url (manager s)) False
           (qdrant_api_key (manager s)) (collection_name (manager s)) True
           (s\<lparr>calls := calls s @ [LoaderLoad p, SplitDocuments 1000 250 docs]\<rparr>) = (r, s')"
  shows "create_embeddings w p s =
           (case r of
              Inl e \<Rightarrow>
                if is_Exception (exc_class e) then
                  (Inl (PyExc ConnectionError
                          (''Failed to connect to Qdrant Cloud: '' @ str_exc e) (Some e)), s')
                else (Inl e, s')
            | Inr u \<Rightarrow> (Inr success_message, s'))"
  using assms by (simp add: create_embeddings_def split: sum.splits)

lemma ok_world_run: "create_embeddings ok_world ''a.pdf'' s0 = (Inr success_message, s_done)"
  by (simp add: create_embeddings_def os_path_exists_def ok_world_def s0_def s_done_def mgr0_def
        from_documents_def upsert_def doc_a_def doc_b_def)

section \<open>The claims\<close>

subsection \<open>C1: a successful ingestion replaces the collection\<close>

text \<open>
  Claim C1. When \<open>create_embeddings\<close> returns, the collection named by the manager, in
  the store at the manager's URL, holds exactly the chunks of this call, each paired with
  its embedding vector, in order. What the collection held before does not occur in the
  result: the upsert is made with \<open>force_recreate=True\<close>, so the call replaces the
  collection and does not append to it.
\<close>

theorem create_embeddings_replaces_collection:
  assumes "create_embeddings w p s = (Inr msg, s')"
  shows "\<exists>docs splits vecs.
           pdf_load w p = Inr docs \<and> split_documents w 1000 250 docs = Inr splits
           \<and> map (embed_text w (embeddings (manager s))) (map page_content splits) = map Inr vecs
           \<and> collections s' (qdrant_url (manager s), collection_name (manager s))
               = zip splits vecs"
proof -
  from assms obtain docs where docs: "pdf_load w p = Inr docs"
    by (cases "pdf_load w p") (auto simp: create_embeddings_def split: if_splits)
  from assms docs obtain splits where splits: "split_documents w 1000 250 docs = Inr splits"
    by (cases "split_documents w 1000 250 docs")
       (auto simp: create_embeddings_def split: if_splits)
  let ?s2 = "s\<lparr>calls := calls s @ [LoaderLoad p, SplitDocuments 1000 250 docs]\<rparr>"
  let ?emb = "embeddings (manager s)"
  let ?url = "qdrant_url (manager s)"
  let ?coll = "collection_name (manager s)"
  from assms docs splits
  have fd: "from_documents w splits ?emb ?url False (qdrant_api_key (manager s)) ?coll True ?s2
              = (Inr (), s')"
    by (auto simp: create_embeddings_def split: if_splits prod.splits sum.splits)
  then obtain vecs s3 where
    emb: "embed_documents w ?emb (map page_content splits) ?s2 = (Inr vecs, s3)" and
    ups: "upsert w ?url (qdrant_api_key (manager s)) ?coll (zip splits vecs) True s3 = (Inr (), s')"
    by (auto simp: from_documents_def split: prod.splits sum.splits)
  from ups have "collections s' (?url, ?coll) = zip splits vecs"
    by (auto simp: upsert_def split: option.splits)
  with docs splits embed_documents_Inr [OF emb] show ?thesis
    by blast
qed

text \<open>
  A run on a collection that held one stale item: afterwards it holds the two new chunks
  and nothing else.
\<close>

theorem create_embeddings_replaces_collection_witness:
  "create_embeddings ok_world ''a.pdf'' s0 = (Inr success_message, s_done)
   \<and> collections s0 (Some ''https://q.example'', Some ''docs'') = [(doc_old, [5])]
   \<and> (\<exists>docs splits vecs.
         pdf_load ok_world ''a.pdf'' = Inr docs
         \<and> split_documents ok_world 1000 250 docs = Inr splits
         \<and> map (embed_text ok_world (embeddings (manager s0))) (map page_content splits)
             = map Inr vecs
         \<and> collections s_done (qdrant_url (manager s0), collection_name (manager s0))
             = zip splits vecs)"
proof -
  have old: "collections s0 (Some ''https://q.example'', Some ''docs'') = [(doc_old, [5])]"
    by (simp add: s0_def)
  from create_embeddings_replaces_collection [OF ok_world_run] ok_world_run old
  show ?thesis by blast
qed

subsection \<open>C3: the existence check\<close>

text \<open>
  Claim C3 as stated: a path that is not an existing readable file makes
  \<open>create_embeddings\<close> raise \<open>FileNotFoundError\<close> before the loader is invoked. The check
  is \<open>os.path.exists\<close>, which a directory passes: for the directory \<open>/data\<close> the loader is
  invoked, and the exception that reaches the caller is the loader's.
\<close>

theorem directory_path_reaches_loader:
  "\<not> is_readable_file (path_kind ok_world ''/data'')
   \<and> create_embeddings ok_world ''/data'' s0
       = (Inl (PyExc (LibraryError ''IsADirectoryError'') ''/data'' None),
          s0\<lparr>calls := [LoaderLoad ''/data'']\<rparr>)"
  by (simp add: create_embeddings_def os_path_exists_def ok_world_def s0_def)

text \<open>
  Claim C3, amended. For every path at which \<open>os.path.exists\<close> is false,
  \<open>create_embeddings\<close> raises \<open>FileNotFoundError\<close> with the message naming the path, and
  leaves the state as it was: no loader, splitter, embedding or store call has been
  made, whatever those collaborators would have done. The check is the first step.
\<close>

theorem missing_path_raises_FileNotFoundError:
  assumes "\<not> os_path_exists w p"
  shows "create_embeddings w p s
           = (Inl (PyExc FileNotFoundError (''The file '' @ p @ '' does not exist.'') None), s)"
  using assms by (simp add: create_embeddings_def)

theorem missing_path_raises_FileNotFoundError_witness:
  "\<not> os_path_exists ok_world ''b.pdf''
   \<and> create_embeddings ok_world ''b.pdf'' s0
       = (Inl (PyExc FileNotFoundError ''The file b.pdf does not exist.'' None), s0)"
proof -
  have h: "\<not> os_path_exists ok_world ''b.pdf''"
    by (simp add: os_path_exists_def ok_world_def)
  from missing_path_raises_FileNotFoundError [OF h, of s0] h show ?thesis by simp
qed

subsection \<open>C4: nothing loaded\<close>

text \<open>
  Claim C4. If the path exists and the loader returns an empty list of documents,
  \<open>create_embeddings\<close> raises \<open>ValueError\<close>; the only call made is the loader's, so
  nothing is split, embedded or upserted.
\<close>

theorem empty_load_raises_ValueError:
  assumes "os_path_exists w p" and "pdf_load w p = Inr []"
  shows "create_embeddings w p s
           = (Inl (PyExc ValueError ''No documents were loaded from the PDF.'' None),
              s\<lparr>calls := calls s @ [LoaderLoad p]\<rparr>)"
  using assms by (simp add: create_embeddings_def)

theorem empty_load_raises_ValueError_witness:
  "os_path_exists empty_world ''a.pdf'' \<and> pdf_load empty_world ''a.pdf'' = Inr []
   \<and> create_embeddings empty_world ''a.pdf'' s0
       = (Inl (PyExc ValueError ''No documents were loaded from the PDF.'' None),
          s0\<lparr>calls := [LoaderLoad ''a.pdf'']\<rparr>)"
proof -
  have h1: "os_path_exists empty_world ''a.pdf''"
    by (simp add: os_path_exists_def empty_world_def ok_world_def)
  have h2: "pdf_load empty_world ''a.pdf'' = Inr []"
    by (simp add: empty_world_def)
  from empty_load_raises_ValueError [OF h1 h2, of s0] h1 h2 show ?thesis
    by (simp add: s0_def)
qed

subsection \<open>C5: nothing split\<close>

text \<open>
  Claim C5. If the path exists, the loader returns a non-empty list of documents and the
  splitter, called with chunk size 1000 and overlap 250, returns an empty list of
  chunks, \<open>create_embeddings\<close> raises \<open>ValueError\<close>; the only calls made are the loader's
  and the splitter's, so nothing is embedded or upserted.
\<close>

theorem empty_split_raises_ValueError:
  assumes "os_path_exists w p" and "pdf_load w p = Inr docs" and "docs \<noteq> []"
    and "split_documents w 1000 250 docs = Inr []"
  shows "create_embeddings w p s
           = (Inl (PyExc ValueError ''No text chunks were created from the documents.'' None),
              s\<lparr>calls := calls s @ [LoaderLoad p, SplitDocuments 1000 250 docs]\<rparr>)"
  using assms by (simp add: create_embeddings_def)

theorem empty_split_raises_ValueError_witness:
  "os_path_exists blank_world ''a.pdf'' \<and> pdf_load blank_world ''a.pdf'' = Inr [doc_a, doc_b]
   \<and> [doc_a, doc_b] \<noteq> [] \<and> split_documents blank_world 1000 250 [doc_a, doc_b] = Inr []
   \<and> create_embeddings blank_world ''a.pdf'' s0
       = (Inl (PyExc ValueError ''No text chunks were created from the documents.'' None),
          s0\<lparr>calls := [LoaderLoad ''a.pdf'', SplitDocuments 1000 250 [doc_a, doc_b]]\<rparr>)"
proof -
  have h1: "os_path_exists blank_world ''a.pdf''"
    by (simp add: os_path_exists_def blank_world_def ok_world_def)
  have h2: "pdf_load blank_world ''a.pdf'' = Inr [doc_a, doc_b]"
    by (simp add: blank_world_def ok_world_def)
  have h3: "[doc_a, doc_b] \<noteq> []" by simp
  have h4: "split_documents blank_world 1000 250 [doc_a, doc_b] = Inr []"
    by (simp add: blank_world_def)
  from empty_split_raises_ValueError [OF h1 h2 h3 h4, of s0] h1 h2 h4 show ?thesis
    by (simp add: s0_def)
qed

subsection \<open>C6: a failure of the store\<close>

text \<open>
  Claim C6. If the ingestion reaches the upsert (the path exists, documents and chunks
  are non-empty, every chunk is embedded) and the store fails there with an exception
  \<open>e\<close> that is an instance of \<open>Exception\<close>, then \<open>create_embeddings\<close> raises
  \<open>ConnectionError\<close>; the text of \<open>e\<close> is in its message and \<open>e\<close> itself is attached as
  its context.
\<close>

theorem store_failure_raises_ConnectionError:
  assumes "os_path_exists w p" and "pdf_load w p = Inr docs" and "docs \<noteq> []"
    and "split_documents w 1000 250 docs = Inr splits" and "splits \<noteq> []"
    and "map (embed_text w (embeddings (manager s))) (map page_content splits) = map Inr vecs"
    and "store_fault w (qdrant_url (manager s)) (qdrant_api_key (manager s))
           (collection_name (manager s)) = Some e"
    and "is_Exception (exc_class e)"
  shows "fst (create_embeddings w p s)
           = Inl (PyExc ConnectionError (''Failed to connect to Qdrant Cloud: '' @ str_exc e)
                    (Some e))"
proof -
  let ?s2 = "s\<lparr>calls := calls s @ [LoaderLoad p, SplitDocuments 1000 250 docs]\<rparr>"
  from embed_documents_ok [OF assms(6), of ?s2]
  have "\<exists>s3. from_documents w splits (embeddings (manager s)) (qdrant_url (manager s)) False
          (qdrant_api_key (manager s)) (collection_name (manager s)) True ?s2 = (Inl e, s3)"
    using assms(7) by (simp add: from_documents_def upsert_def)
  then obtain s3 where "from_documents w splits (embeddings (manager s)) (qdrant_url (manager s))
     False (qdrant_api_key (manager s)) (collection_name (manager s)) True ?s2 = (Inl e, s3)" ..
  with assms(1-5,8) show ?thesis
    by (simp add: create_embeddings_def)
qed

theorem store_failure_raises_ConnectionError_witness:
  "os_path_exists store_down_world ''a.pdf''
   \<and> pdf_load store_down_world ''a.pdf'' = Inr [doc_a, doc_b]
   \<and> split_documents store_down_world 1000 250 [doc_a, doc_b] = Inr [doc_a, doc_b]
   \<and> map (embed_text store_down_world (embeddings (manager s0)))
         (map page_content [doc_a, doc_b]) = map Inr [[10], [5]]
   \<and> store_fault store_down_world (qdrant_url (manager s0)) (qdrant_api_key (manager s0))
         (collection_name (manager s0)) = Some store_error
   \<and> is_Exception (exc_class store_error)
   \<and> fst (create_embeddings store_down_world ''a.pdf'' s0)
       = Inl (PyExc ConnectionError ''Failed to connect to Qdrant Cloud: 401 Unauthorized''
                (Some store_error))"
proof -
  have h1: "os_path_exists store_down_world ''a.pdf''"
    by (simp add: os_path_exists_def store_down_world_def ok_world_def)
  have h2: "pdf_load store_down_world ''a.pdf'' = Inr [doc_a, doc_b]"
    by (simp add: store_down_world_def ok_world_def)
  have h3: "[doc_a, doc_b] \<noteq> []" by simp
  have h4: "split_documents store_down_world 1000 250 [doc_a, doc_b] = Inr [doc_a, doc_b]"
    by (simp add: store_down_world_def ok_world_def)
  have h5: "map (embed_text store_down_world (embeddings (manager s0)))
              (map page_content [doc_a, doc_b]) = map Inr [[10], [5]]"
    by (simp add: store_down_world_def ok_world_def doc_a_def doc_b_def)
  have h6: "store_fault store_down_world (qdrant_url (manager s0)) (qdrant_api_key (manager s0))
              (collection_name (manager s0)) = Some store_error"
    by (simp add: store_down_world_def)
  have h7: "is_Exception (exc_class store_error)"
    by (simp add: store_error_def)
  from store_failure_raises_ConnectionError [OF h1 h2 h3 h4 h3 h5 h6 h7] h1 h2 h4 h5 h6 h7
  show ?thesis
    by (simp add: str_exc_def store_error_def)
qed

subsection \<open>C7: a failure of the embedding provider\<close>

text \<open>
  Claim C7 as stated: a failure of the embedding provider reaches the caller as the
  provider's own error. The embeddings object is used only inside
  \<open>Qdrant.from_documents\<close>, which \<open>create_embeddings\<close> calls inside the \<open>try\<close>: when the
  provider fails on the second chunk with an \<open>EmbeddingError\<close>, the caller receives a
  \<open>ConnectionError\<close>.
\<close>

theorem embedding_error_not_propagated:
  "embed_text embed_fail_world (embeddings mgr0) ''gamma'' = Inl embedding_error
   \<and> exc_class embedding_error = LibraryError ''EmbeddingError''
   \<and> fst (create_embeddings embed_fail_world ''a.pdf'' s0)
       = Inl (PyExc ConnectionError ''Failed to connect to Qdrant Cloud: model failed''
                (Some embedding_error))"
  by (simp add: create_embeddings_def os_path_exists_def embed_fail_world_def ok_world_def
        s0_def from_documents_def embedding_error_def str_exc_def doc_a_def doc_b_def)

text \<open>
  Claim C7, amended. If the embedding provider fails on a chunk with an exception \<open>e\<close>
  that is an instance of \<open>Exception\<close> (the chunks before it having been embedded), the
  handler around the store call catches \<open>e\<close> and \<open>create_embeddings\<close> raises
  \<open>ConnectionError\<close> with the text of \<open>e\<close> in its message and \<open>e\<close> as its context.
\<close>

theorem embedding_failure_raises_ConnectionError:
  assumes "os_path_exists w p" and "pdf_load w p = Inr docs" and "docs \<noteq> []"
    and "split_documents w 1000 250 docs = Inr (pre @ c # post)"
    and "map (embed_text w (embeddings (manager s))) (map page_content pre) = map Inr vecs"
    and "embed_text w (embeddings (manager s)) (page_content c) = Inl e"
    and "is_Exception (exc_class e)"
  shows "fst (create_embeddings w p s)
           = Inl (PyExc ConnectionError (''Failed to connect to Qdrant Cloud: '' @ str_exc e)
                    (Some e))"
proof -
  let ?s2 = "s\<lparr>calls := calls s @ [LoaderLoad p, SplitDocuments 1000 250 docs]\<rparr>"
  from embed_documents_fail [OF assms(5,6), of "map page_content post" ?s2]
  have "from_documents w (pre @ c # post) (embeddings (manager s)) (qdrant_url (manager s)) False
          (qdrant_api_key (manager s)) (collection_name (manager s)) True ?s2
        = (Inl e, ?s2\<lparr>calls := calls ?s2 @ map EmbedText (map page_content pre @ [page_content c])\<rparr>)"
    by (simp add: from_documents_def)
  with assms(1-4,7) show ?thesis
    by (simp add: create_embeddings_def)
qed

theorem embedding_failure_raises_ConnectionError_witness:
  "os_path_exists embed_fail_world ''a.pdf''
   \<and> pdf_load embed_fail_world ''a.pdf'' = Inr [doc_a, doc_b]
   \<and> split_documents embed_fail_world 1000 250 [doc_a, doc_b] = Inr ([doc_a] @ doc_b # [])
   \<and> map (embed_text embed_fail_world (embeddings (manager s0))) (map page_content [doc_a])
       = map Inr [[10]]
   \<and> embed_text embed_fail_world (embeddings (manager s0)) (page_content doc_b)
       = Inl embedding_error
   \<and> is_Exception (exc_class embedding_error)
   \<and> fst (create_embeddings embed_fail_world ''a.pdf'' s0)
       = Inl (PyExc ConnectionError ''Failed to connect to Qdrant Cloud: model failed''
                (Some embedding_error))"
proof -
  have h1: "os_path_exists embed_fail_world ''a.pdf''"
    by (simp add: os_path_exists_def embed_fail_world_def ok_world_def)
  have h2: "pdf_load embed_fail_world ''a.pdf'' = Inr [doc_a, doc_b]"
    by (simp add: embed_fail_world_def ok_world_def)
  have h3: "[doc_a, doc_b] \<noteq> []" by simp
  have h4: "split_documents embed_fail_world 1000 250 [doc_a, doc_b] = Inr ([doc_a] @ doc_b # [])"
    by (simp add: embed_fail_world_def ok_world_def)
  have h5: "map (embed_text embed_fail_world (embeddings (manager s0))) (map page_content [doc_a])
              = map Inr [[10]]"
    by (simp add: embed_fail_world_def doc_a_def)
  have h6: "embed_text embed_fail_world (embeddings (manager s0)) (page_content doc_b)
              = Inl embedding_error"
    by (simp add: embed_fail_world_def doc_b_def)
  have h7: "is_Exception (exc_class embedding_error)"
    by (simp add: embedding_error_def)
  from embedding_failure_raises_ConnectionError [OF h1 h2 h3 h4 h5 h6 h7] h1 h2 h4 h5 h6 h7
  show ?thesis
    by (simp add: str_exc_def embedding_error_def)
qed

subsection \<open>C8: absent settings at construction\<close>

text \<open>
  Claim C8 as stated: an absent store URL, API key or collection name makes the
  constructor raise a configuration error. With none of \<open>QDRANT_URL\<close>, \<open>QDRANT_API_KEY\<close>
  and \<open>COLLECTION_NAME\<close> set, the default constructor returns a manager whose three
  fields are \<open>None\<close>.
\<close>

theorem default_init_without_settings:
  "empty_env ''QDRANT_URL'' = None \<and> empty_env ''QDRANT_API_KEY'' = None
   \<and> empty_env ''COLLECTION_NAME'' = None
   \<and> EmbeddingsManager_default empty_env ok_world
       = Inr (mgr0\<lparr>qdrant_url := None, qdrant_api_key := None, collection_name := None\<rparr>)"
  by (simp add: empty_env_def EmbeddingsManager_default_def EmbeddingsManager_init_def
        ok_world_def mgr0_def)

text \<open>
  Claim C8, amended. The constructor does not validate the store URL, the API key or the
  collection name: whenever the embeddings object can be built, construction succeeds
  and stores each of the three values as given, \<open>None\<close> when it is absent.
\<close>

theorem init_stores_absent_settings:
  assumes "hf_fault w mn [(''device'', dev)] ek = None"
  shows "EmbeddingsManager_init w mn dev ek url api_key coll
           = Inr \<lparr>model_name = mn, device = dev, encode_kwargs = ek,
                  qdrant_url = url, qdrant_api_key = api_key, collection_name = coll,
                  embeddings = \<lparr>hf_model_name = mn, hf_model_kwargs = [(''device'', dev)],
                                 hf_encode_kwargs = ek\<rparr>\<rparr>"
  using assms by (simp add: EmbeddingsManager_init_def)

theorem init_stores_absent_settings_witness:
  "hf_fault ok_world ''BAAI/bge-small-en'' [(''device'', ''cpu'')]
     [(''normalize_embeddings'', True)] = None
   \<and> EmbeddingsManager_init ok_world ''BAAI/bge-small-en'' ''cpu''
         [(''normalize_embeddings'', True)] None (Some ''k'') None
       = Inr (mgr0\<lparr>qdrant_url := None, collection_name := None\<rparr>)"
proof -
  have h: "hf_fault ok_world ''BAAI/bge-small-en'' [(''device'', ''cpu'')]
             [(''normalize_embeddings'', True)] = None"
    by (simp add: ok_world_def)
  from init_stores_absent_settings [OF h, of None "Some ''k''" None] h show ?thesis
    by (simp add: mgr0_def)
qed

subsection \<open>C9: the manager is not changed\<close>

text \<open>
  Claim C9. Whatever \<open>create_embeddings\<close> does, and whether it returns or raises, the
  manager after the call is the manager before it: \<open>model_name\<close>, \<open>device\<close>,
  \<open>encode_kwargs\<close>, \<open>qdrant_url\<close>, \<open>qdrant_api_key\<close>, \<open>collection_name\<close> and \<open>embeddings\<close>
  all keep their values.
\<close>

theorem create_embeddings_keeps_manager:
  "manager (snd (create_embeddings w p s)) = manager s"
proof (cases "os_path_exists w p")
  case False
  then show ?thesis by (simp add: create_embeddings_def)
next
  case ex: True
  show ?thesis
  proof (cases "pdf_load w p")
    case (Inl e)
    with ex show ?thesis by (simp add: create_embeddings_def)
  next
    case docs: (Inr docs)
    show ?thesis
    proof (cases "split_documents w 1000 250 docs")
      case (Inl e)
      with ex docs show ?thesis by (simp add: create_embeddings_def)
    next
      case splits: (Inr splits)
      show ?thesis
      proof (cases "docs = [] \<or> splits = []")
        case True
        with ex docs splits show ?thesis by (auto simp: create_embeddings_def)
      next
        case False
        then have ne: "docs \<noteq> []" "splits \<noteq> []" by simp_all
        let ?s2 = "s\<lparr>calls := calls s @ [LoaderLoad p, SplitDocuments 1000 250 docs]\<rparr>"
        obtain r s' where fd:
          "from_documents w splits (embeddings (manager s)) (qdrant_url (manager s)) False
             (qdrant_api_key (manager s)) (collection_name (manager s)) True ?s2 = (r, s')"
          by (cases "from_documents w splits (embeddings (manager s)) (qdrant_url (manager s))
                False (qdrant_api_key (manager s)) (collection_name (manager s)) True ?s2")
        from from_documents_manager [OF fd] have m: "manager s' = manager s" by simp
        from create_embeddings_store_step [OF ex docs ne(1) splits ne(2) fd] m
        show ?thesis by (cases r) auto
      qed
    qed
  qed
qed

theorem create_embeddings_keeps_manager_witness:
  "manager (snd (create_embeddings store_down_world ''a.pdf'' s0)) = mgr0"
  using create_embeddings_keeps_manager [of store_down_world "''a.pdf''" s0]
  by (simp add: s0_def)

subsection \<open>C10: the returned string\<close>

text \<open>
  Claim C10. Whenever \<open>create_embeddings\<close> returns, the string it returns is the one
  fixed message, whatever the path, the chunks and the collection.
\<close>

theorem success_value_is_constant:
  assumes "create_embeddings w p s = (Inr msg, s')"
  shows "msg = success_message"
proof -
  from assms have ex: "os_path_exists w p"
    by (auto simp: create_embeddings_def split: if_splits)
  from assms ex obtain docs where docs: "pdf_load w p = Inr docs" "docs \<noteq> []"
    by (cases "pdf_load w p") (auto simp: create_embeddings_def split: if_splits)
  from assms ex docs obtain splits where
    splits: "split_documents w 1000 250 docs = Inr splits" "splits \<noteq> []"
    by (cases "split_documents w 1000 250 docs")
       (auto simp: create_embeddings_def split: if_splits)
  let ?s2 = "s\<lparr>calls := calls s @ [LoaderLoad p, SplitDocuments 1000 250 docs]\<rparr>"
  obtain r s3 where fd:
    "from_documents w splits (embeddings (manager s)) (qdrant_url (manager s)) False
       (qdrant_api_key (manager s)) (collection_name (manager s)) True ?s2 = (r, s3)"
    by (cases "from_documents w splits (embeddings (manager s)) (qdrant_url (manager s))
          False (qdrant_api_key (manager s)) (collection_name (manager s)) True ?s2")
  from create_embeddings_store_step [OF ex docs splits fd] assms
  show ?thesis by (cases r) (auto split: if_splits)
qed

theorem success_value_is_constant_witness:
  "fst (create_embeddings ok_world ''a.pdf'' s0) = Inr success_message"
proof -
  obtain msg s' where run: "create_embeddings ok_world ''a.pdf'' s0 = (Inr msg, s')"
    using ok_world_run by blast
  from success_value_is_constant [OF run] run show ?thesis by simp
qed

end
